theory Spec2Isabelle
  imports Main "HOL-Library.Word"
begin

unbundle bit_operations_syntax

section \<open>The EventPipe configuration of src/vm/eventpipeconfiguration.cpp\<close>

text \<open>
  The theory embeds \<^verbatim>\<open>EventPipeConfiguration\<close>, \<^verbatim>\<open>EventPipeEnabledProviderList\<close> and
  \<^verbatim>\<open>EventPipeEnabledProvider\<close> as the file defines them.

  Conventions of the embedding.
  \<^item> An \<^verbatim>\<open>SString\<close> is a counted string: the list of its UTF-16 code units, whatever
    they are; \<^verbatim>\<open>SString::Equals\<close> is equality of these lists, and \<^verbatim>\<open>GetUnicode()\<close> points
    to the units followed by a NUL. An \<^verbatim>\<open>LPCWSTR\<close> is the list of the code units in its
    buffer before the terminating NUL. The C string functions read a buffer up to its
    first NUL (\<open>wcs\<close> below), so \<^verbatim>\<open>wcscmp(a, b) == 0\<close> compares what the two buffers
    hold before their first NUL.
  \<^item> \<^verbatim>\<open>unsigned int\<close> and \<^verbatim>\<open>DWORD\<close> are \<open>32 word\<close>; \<^verbatim>\<open>UINT64\<close>, \<^verbatim>\<open>INT64\<close> and
    \<^verbatim>\<open>size_t\<close> (a 64-bit target) are \<open>64 word\<close>; arithmetic wraps as in C++.
  \<^item> \<^verbatim>\<open>EventPipeEventLevel\<close> is an \<^verbatim>\<open>enum class\<close> that the file casts from and to
    \<^verbatim>\<open>unsigned int\<close>; it is its 32-bit underlying value, with the six enumerators as
    named constants.
  \<^item> Provider objects live outside the configuration, which holds pointers to them: an
    address is a \<open>nat\<close>, the memory is a store from addresses to provider objects, and
    the provider list is a list of addresses (\<open>None\<close> for the \<^verbatim>\<open>NULL\<close> list of shutdown).
    The store keeps no allocation map: \<^verbatim>\<open>delete\<close> of a provider changes nothing in it.
  \<^item> The lock (\<^verbatim>\<open>CrstHolder\<close>) and the contracts about it are not modelled: every
    operation is one sequential step. Allocation is taken to succeed.
\<close>

type_synonym addr = nat
type_synonym BYTE = "8 word"
type_synonym WCHAR = "16 word"
type_synonym wstring = "WCHAR list"
type_synonym EventPipeEventLevel = "32 word"

text \<open>
  Modelled from the spec: the enumerators' values are declared in eventpipe.h, not among
  the sources; spec section 6 gives them as LogAlways=0, Critical=1, Error=2, Warning=3,
  Informational=4, Verbose=5.
\<close>

definition LogAlways :: EventPipeEventLevel where "LogAlways = 0"
definition Critical :: EventPipeEventLevel where "Critical = 1"
definition Error :: EventPipeEventLevel where "Error = 2"
definition Warning :: EventPipeEventLevel where "Warning = 3"
definition Informational :: EventPipeEventLevel where "Informational = 4"
definition Verbose :: EventPipeEventLevel where "Verbose = 5"

text \<open>The \<^verbatim>\<open>W("...")\<close> literal macro: each character as one UTF-16 code unit.\<close>

definition W :: "string \<Rightarrow> wstring" where
  "W s = map of_char s"

datatype error = AssertionFailure | BufferOverrun

subsection \<open>Provider objects\<close>

text \<open>
  Modelled from the spec: the class \<^verbatim>\<open>EventPipeProvider\<close> (eventpipeprovider.h/.cpp) is not
  among the sources. The spec's ProviderEntry (section 3) has a name, an enabled flag, a
  64-bit keyword mask, a level, an optional callback with its data, and a delete-deferred
  flag; \<^verbatim>\<open>GetProviderName\<close> and \<^verbatim>\<open>GetDeleteDeferred\<close> read their fields.
\<close>

record EventPipeProvider =
  prov_providerName :: wstring
  prov_enabled :: bool
  prov_keywords :: "64 word"
  prov_providerLevel :: EventPipeEventLevel
  prov_pCallbackFunction :: "addr option"
  prov_pCallbackData :: "addr option"
  prov_deleteDeferred :: bool

text \<open>
  Modelled from the spec: the constructor \<^verbatim>\<open>EventPipeProvider(config, name, callback,
  data)\<close> is not among the sources. A new entry has the given name and callback, is
  disabled and not flagged; the spec fixes no keywords and level for it, and it gets the
  ones \<^verbatim>\<open>Disable\<close> sets.
\<close>

definition EventPipeProvider_ctor :: "wstring \<Rightarrow> addr option \<Rightarrow> addr option \<Rightarrow> EventPipeProvider" where
  "EventPipeProvider_ctor providerName pCallbackFunction pCallbackData =
     \<lparr>prov_providerName = providerName, prov_enabled = False, prov_keywords = 0,
      prov_providerLevel = Critical, prov_pCallbackFunction = pCallbackFunction,
      prov_pCallbackData = pCallbackData, prov_deleteDeferred = False\<rparr>"

text \<open>
  Modelled from the spec: \<^verbatim>\<open>EventPipeProvider::SetConfiguration(enabled, keywords, level)\<close>
  is not among the sources; it stores the three filter fields of the entry.
\<close>

definition SetConfiguration :: "bool \<Rightarrow> 64 word \<Rightarrow> EventPipeEventLevel \<Rightarrow> EventPipeProvider \<Rightarrow> EventPipeProvider" where
  "SetConfiguration providerEnabled keywords providerLevel p =
     p\<lparr>prov_enabled := providerEnabled, prov_keywords := keywords,
       prov_providerLevel := providerLevel\<rparr>"

subsection \<open>Session filters\<close>

text \<open>
  Modelled from the spec: \<^verbatim>\<open>EventPipeProviderConfiguration\<close> is declared in eventpipe.h, not
  among the sources. Spec section 6 gives a configuration entry a name, 64-bit keywords
  and a level; the file reads them through three getters and builds entries with the
  three-argument constructor, the level as \<^verbatim>\<open>unsigned int\<close>.
\<close>

record EventPipeProviderConfiguration =
  cfg_pProviderName :: wstring
  cfg_keywords :: "64 word"
  cfg_loggingLevel :: "32 word"

record EventPipeEnabledProvider =
  m_pProviderName :: "wstring option"
  m_keywords :: "64 word"
  m_loggingLevel :: EventPipeEventLevel

text \<open>
  \<^verbatim>\<open>EventPipeEnabledProvider::Set\<close> on a freshly constructed object: it stores a copy of
  the name (\<^verbatim>\<open>wcslen\<close> and \<^verbatim>\<open>wcscpy_s\<close>: the units of the \<^verbatim>\<open>LPCWSTR\<close> up to its
  terminating NUL) or leaves \<^verbatim>\<open>NULL\<close>, and overwrites the keywords and the level.
\<close>

definition EventPipeEnabledProvider_Set :: "wstring option \<Rightarrow> 64 word \<Rightarrow> EventPipeEventLevel \<Rightarrow> EventPipeEnabledProvider" where
  "EventPipeEnabledProvider_Set providerName keywords loggingLevel =
     \<lparr>m_pProviderName = providerName, m_keywords = keywords, m_loggingLevel = loggingLevel\<rparr>"

record EventPipeEnabledProviderList =
  m_pProviders :: "EventPipeEnabledProvider list option"
  m_pCatchAllProvider :: "EventPipeEnabledProvider option"
  m_numProviders :: nat

text \<open>
  The constructor. \<open>perfTracing\<close> is the value \<^verbatim>\<open>CLRConfig::GetConfigValue\<close> returns for
  \<^verbatim>\<open>INTERNAL_PerformanceTracing\<close>; the array \<^verbatim>\<open>pConfigs\<close> and its element count
  \<^verbatim>\<open>numConfigs\<close> are one list.
\<close>

definition EventPipeEnabledProviderList_ctor :: "32 word \<Rightarrow> EventPipeProviderConfiguration list \<Rightarrow> EventPipeEnabledProviderList" where
  "EventPipeEnabledProviderList_ctor perfTracing pConfigs =
     (if perfTracing AND 1 = 1
      then \<lparr>m_pProviders = None,
            m_pCatchAllProvider = Some (EventPipeEnabledProvider_Set None 0xFFFFFFFFFFFFFFFF Verbose),
            m_numProviders = 0\<rparr>
      else if length pConfigs = 0
      then \<lparr>m_pProviders = None, m_pCatchAllProvider = None, m_numProviders = 0\<rparr>
      else \<lparr>m_pProviders = Some (map (\<lambda>c. EventPipeEnabledProvider_Set
                   (Some (cfg_pProviderName c)) (cfg_keywords c) (cfg_loggingLevel c)) pConfigs),
            m_pCatchAllProvider = None,
            m_numProviders = length pConfigs\<rparr>)"

text \<open>
  What a C string function reads from a buffer that holds the code units \<open>s\<close> and then a
  NUL: the units before the first NUL. \<open>wcscmp_equal a b\<close> is \<^verbatim>\<open>wcscmp(a, b) == 0\<close>.
\<close>

definition wcs :: "wstring \<Rightarrow> wstring" where
  "wcs s = takeWhile (\<lambda>c. c \<noteq> 0) s"

definition wcscmp_equal :: "wstring \<Rightarrow> wstring \<Rightarrow> bool" where
  "wcscmp_equal a b = (wcs a = wcs b)"

text \<open>
  \<^verbatim>\<open>GetEnabledProvider\<close>: the catch-all entry when there is one, else the first of the
  \<^verbatim>\<open>m_numProviders\<close> entries for which \<^verbatim>\<open>wcscmp\<close> of the provider's name
  (\<^verbatim>\<open>GetUnicode()\<close> of the \<^verbatim>\<open>SString\<close>) and the entry's name is 0. Every entry of the
  array has a name; only the catch-all entry has none.
\<close>

definition GetEnabledProvider :: "EventPipeEnabledProviderList \<Rightarrow> EventPipeProvider \<Rightarrow> EventPipeEnabledProvider option" where
  "GetEnabledProvider l pProvider =
     (case m_pCatchAllProvider l of
        Some c \<Rightarrow> Some c
      | None \<Rightarrow>
          (case m_pProviders l of
             None \<Rightarrow> None
           | Some ps \<Rightarrow>
               find (\<lambda>pCandidate.
                       case m_pProviderName pCandidate of
                         None \<Rightarrow> False
                       | Some candidateName \<Rightarrow>
                           wcscmp_equal (prov_providerName pProvider) candidateName)
                 (take (m_numProviders l) ps)))"

subsection \<open>The configuration and the provider memory\<close>

record EventPipeConfiguration =
  m_enabled :: bool
  m_rundownEnabled :: bool
  m_circularBufferSizeInBytes :: "64 word"
  m_pEnabledProviderList :: "EventPipeEnabledProviderList option"
  m_pConfigProvider :: "addr option"
  m_pProviderList :: "addr list option"

record state = EventPipeConfiguration +
  heap :: "addr \<Rightarrow> EventPipeProvider"

definition EventPipeConfiguration_ctor :: "(addr \<Rightarrow> EventPipeProvider) \<Rightarrow> state" where
  "EventPipeConfiguration_ctor h =
     \<lparr>m_enabled = False, m_rundownEnabled = False,
      m_circularBufferSizeInBytes = 1024 * 1024 * 1000,
      m_pEnabledProviderList = None, m_pConfigProvider = None,
      m_pProviderList = Some [], heap = h\<rparr>"

definition GetProviderNoLock :: "wstring \<Rightarrow> state \<Rightarrow> addr option" where
  "GetProviderNoLock providerName s =
     (case m_pProviderList s of
        None \<Rightarrow> None
      | Some ps \<Rightarrow> find (\<lambda>pProvider. prov_providerName (heap s pProvider) = providerName) ps)"

definition GetProvider :: "wstring \<Rightarrow> state \<Rightarrow> addr option" where
  "GetProvider providerName s = GetProviderNoLock providerName s"

text \<open>
  \<^verbatim>\<open>RegisterProvider(provider)\<close>: \<open>provider\<close> is the address of the object the reference
  names. The result is the returned \<^verbatim>\<open>bool\<close> and the state after the call.
\<close>

definition RegisterProvider :: "addr \<Rightarrow> state \<Rightarrow> bool \<times> state" where
  "RegisterProvider provider s =
     (case GetProviderNoLock (prov_providerName (heap s provider)) s of
        Some pExistingProvider \<Rightarrow> (False, s)
      | None \<Rightarrow>
          (let s1 = (case m_pProviderList s of
                       None \<Rightarrow> s
                     | Some ps \<Rightarrow> s\<lparr>m_pProviderList := Some (ps @ [provider])\<rparr>);
               s2 = (case m_pEnabledProviderList s1 of
                       None \<Rightarrow> s1
                     | Some l \<Rightarrow>
                         (case GetEnabledProvider l (heap s1 provider) of
                            None \<Rightarrow> s1
                          | Some pEnabledProvider \<Rightarrow>
                              s1\<lparr>heap := (heap s1)(provider :=
                                   SetConfiguration True (m_keywords pEnabledProvider)
                                     (m_loggingLevel pEnabledProvider) (heap s1 provider))\<rparr>))
           in (True, s2)))"

text \<open>
  \<^verbatim>\<open>UnregisterProvider\<close>: the first list element holding the provider's address is
  unlinked (\<^verbatim>\<open>FindAndRemove\<close>) and freed.
\<close>

definition UnregisterProvider :: "addr \<Rightarrow> state \<Rightarrow> bool \<times> state" where
  "UnregisterProvider provider s =
     (case m_pProviderList s of
        None \<Rightarrow> (False, s)
      | Some ps \<Rightarrow>
          if provider \<in> set ps
          then (True, s\<lparr>m_pProviderList := Some (remove1 provider ps)\<rparr>)
          else (False, s))"

text \<open>
  \<^verbatim>\<open>DeleteProvider\<close>: \<open>None\<close> is the \<^verbatim>\<open>NULL\<close> pointer, on which the function returns at
  once. The \<^verbatim>\<open>delete\<close> of the provider object leaves the store as it is.
\<close>

definition DeleteProvider :: "addr option \<Rightarrow> state \<Rightarrow> state" where
  "DeleteProvider pProvider s =
     (case pProvider of
        None \<Rightarrow> s
      | Some p \<Rightarrow> snd (UnregisterProvider p s))"

text \<open>
  \<^verbatim>\<open>CreateProvider\<close>: \<open>a\<close> is the address \<^verbatim>\<open>new\<close> returns. The result of
  \<^verbatim>\<open>RegisterProvider\<close> is dropped, as in the source.
\<close>

definition CreateProvider :: "addr \<Rightarrow> wstring \<Rightarrow> addr option \<Rightarrow> addr option \<Rightarrow> state \<Rightarrow> addr \<times> state" where
  "CreateProvider a providerName pCallbackFunction pCallbackData s =
     (let s1 = s\<lparr>heap := (heap s)(a := EventPipeProvider_ctor providerName pCallbackFunction pCallbackData)\<rparr>
      in (a, snd (RegisterProvider a s1)))"

text \<open>
  \<^verbatim>\<open>Initialize\<close> creates the configuration provider at the address \<open>a\<close> that
  \<^verbatim>\<open>new\<close> returns. The metadata event it then adds (\<^verbatim>\<open>EventPipeProvider::AddEvent\<close>, not
  among the sources) is a parameter of \<^verbatim>\<open>BuildEventMetadataEvent\<close> below.
\<close>

definition s_configurationProviderName :: wstring where
  "s_configurationProviderName = W ''Microsoft-DotNETCore-EventPipeConfiguration''"

definition Initialize :: "addr \<Rightarrow> state \<Rightarrow> state" where
  "Initialize a s =
     (case CreateProvider a s_configurationProviderName None None s of
        (pProvider, s1) \<Rightarrow> s1\<lparr>m_pConfigProvider := Some pProvider\<rparr>)"

text \<open>
  The destructor: the configuration provider is deleted, the filter list freed, the list
  elements and the list freed. The lock is taken to succeed, so the \<^verbatim>\<open>EX_CATCH\<close> blocks
  never run.
\<close>

definition EventPipeConfiguration_dtor :: "state \<Rightarrow> state" where
  "EventPipeConfiguration_dtor s =
     (let s1 = (case m_pConfigProvider s of
                  None \<Rightarrow> s
                | Some p \<Rightarrow> (DeleteProvider (Some p) s)\<lparr>m_pConfigProvider := None\<rparr>);
          s2 = (case m_pEnabledProviderList s1 of
                  None \<Rightarrow> s1
                | Some l \<Rightarrow> s1\<lparr>m_pEnabledProviderList := None\<rparr>)
      in case m_pProviderList s2 of
           None \<Rightarrow> s2
         | Some ps \<Rightarrow> s2\<lparr>m_pProviderList := None\<rparr>)"

definition GetCircularBufferSize :: "state \<Rightarrow> 64 word" where
  "GetCircularBufferSize s = m_circularBufferSizeInBytes s"

definition SetCircularBufferSize :: "64 word \<Rightarrow> state \<Rightarrow> state" where
  "SetCircularBufferSize circularBufferSize s =
     (if \<not> m_enabled s then s\<lparr>m_circularBufferSizeInBytes := circularBufferSize\<rparr> else s)"

subsection \<open>Enable, Disable, rundown\<close>

text \<open>The \<^verbatim>\<open>while\<close> loop of \<^verbatim>\<open>Enable\<close> over the provider list, head first.\<close>

fun Enable_loop :: "EventPipeEnabledProviderList \<Rightarrow> addr list \<Rightarrow> (addr \<Rightarrow> EventPipeProvider) \<Rightarrow> (addr \<Rightarrow> EventPipeProvider)" where
  "Enable_loop l [] h = h"
| "Enable_loop l (pProvider # rest) h =
     Enable_loop l rest
       (case GetEnabledProvider l (h pProvider) of
          None \<Rightarrow> h
        | Some pEnabledProvider \<Rightarrow>
            h(pProvider := SetConfiguration True (m_keywords pEnabledProvider)
                             (m_loggingLevel pEnabledProvider) (h pProvider)))"

text \<open>
  \<^verbatim>\<open>Enable\<close>. The product \<^verbatim>\<open>circularBufferSizeInMB * 1024 * 1024\<close> has type
  \<^verbatim>\<open>unsigned int\<close> and is converted to \<^verbatim>\<open>size_t\<close> on assignment. The array
  \<^verbatim>\<open>pProviders\<close> and its count \<^verbatim>\<open>numProviders\<close> are one list, and \<open>perfTracing\<close> is the
  configuration value the filter list's constructor reads.
\<close>

definition Enable :: "32 word \<Rightarrow> 32 word \<Rightarrow> EventPipeProviderConfiguration list \<Rightarrow> state \<Rightarrow> state" where
  "Enable perfTracing circularBufferSizeInMB pProviders s =
     (let l = EventPipeEnabledProviderList_ctor perfTracing pProviders;
          s1 = s\<lparr>m_circularBufferSizeInBytes := ucast (circularBufferSizeInMB * 1024 * 1024),
                 m_pEnabledProviderList := Some l,
                 m_enabled := True\<rparr>
      in case m_pProviderList s1 of
           None \<Rightarrow> s1
         | Some ps \<Rightarrow> s1\<lparr>heap := Enable_loop l ps (heap s1)\<rparr>)"

fun Disable_loop :: "addr list \<Rightarrow> (addr \<Rightarrow> EventPipeProvider) \<Rightarrow> (addr \<Rightarrow> EventPipeProvider)" where
  "Disable_loop [] h = h"
| "Disable_loop (pProvider # rest) h =
     Disable_loop rest (h(pProvider := SetConfiguration False 0 Critical (h pProvider)))"

definition Disable :: "state \<Rightarrow> state" where
  "Disable s =
     (let s1 = (case m_pProviderList s of
                  None \<Rightarrow> s
                | Some ps \<Rightarrow> s\<lparr>heap := Disable_loop ps (heap s)\<rparr>)
      in s1\<lparr>m_enabled := False, m_rundownEnabled := False, m_pEnabledProviderList := None\<rparr>)"

definition Enabled :: "state \<Rightarrow> bool" where
  "Enabled s = m_enabled s"

definition RundownEnabled :: "state \<Rightarrow> bool" where
  "RundownEnabled s = m_rundownEnabled s"

definition rundownProviders :: "EventPipeProviderConfiguration list" where
  "rundownProviders =
     [\<lparr>cfg_pProviderName = W ''Microsoft-Windows-DotNETRuntime'',
       cfg_keywords = 0x80020138, cfg_loggingLevel = Verbose\<rparr>,
      \<lparr>cfg_pProviderName = W ''Microsoft-Windows-DotNETRuntimeRundown'',
       cfg_keywords = 0x80020138, cfg_loggingLevel = Verbose\<rparr>]"

text \<open>\<^verbatim>\<open>EnableRundown\<close>, with \<^verbatim>\<open>_ASSERTE\<close> as a checked build runs it.\<close>

definition EnableRundown :: "32 word \<Rightarrow> state \<Rightarrow> error + state" where
  "EnableRundown perfTracing s =
     (if m_pEnabledProviderList s \<noteq> None then Inl AssertionFailure
      else Inr (Enable perfTracing 1 rundownProviders (s\<lparr>m_rundownEnabled := True\<rparr>)))"

text \<open>
  \<^verbatim>\<open>DeleteDeferredProviders\<close>: the loop reads the next element before it deletes the
  current one, so it visits the elements the list had on entry, in order.
\<close>

fun DeleteDeferred_loop :: "addr list \<Rightarrow> state \<Rightarrow> state" where
  "DeleteDeferred_loop [] s = s"
| "DeleteDeferred_loop (pProvider # rest) s =
     DeleteDeferred_loop rest
       (if prov_deleteDeferred (heap s pProvider) then DeleteProvider (Some pProvider) s else s)"

definition DeleteDeferredProviders :: "state \<Rightarrow> state" where
  "DeleteDeferredProviders s =
     (case m_pProviderList s of
        None \<Rightarrow> s
      | Some ps \<Rightarrow> DeleteDeferred_loop ps s)"

subsection \<open>The metadata event\<close>

text \<open>
  Modelled from the spec: \<^verbatim>\<open>EventPipeEvent\<close> and \<^verbatim>\<open>EventPipeEventInstance\<close> are declared in
  eventpipeevent.h and eventpipeeventinstance.h, not among the sources. Spec section 4.4
  gives a source event a provider, an event ID, an event version and a schema blob with
  its length, and an instance its event, its payload and a time stamp; the records hold
  what the getters and the constructor used here read and write. \<open>evt_pMetadata\<close> is the
  memory \<^verbatim>\<open>GetMetadata()\<close> points to, \<open>evt_metadataLength\<close> what
  \<^verbatim>\<open>GetMetadataLength()\<close> returns.
\<close>

record EventPipeEvent =
  evt_pProvider :: addr
  evt_eventID :: "32 word"
  evt_eventVersion :: "32 word"
  evt_pMetadata :: "BYTE list"
  evt_metadataLength :: "32 word"

record EventPipeEventInstance =
  inst_pEvent :: EventPipeEvent
  inst_threadID :: "32 word"
  inst_pData :: "BYTE list"
  inst_dataLength :: "32 word"
  inst_timeStamp :: "64 word"

text \<open>
  Memory is bytes in the byte order of the targets (little-endian), and a \<^verbatim>\<open>WCHAR\<close> is
  two bytes (\<^verbatim>\<open>sizeof(WCHAR)\<close> is 2). \<^verbatim>\<open>GetUnicode()\<close>
  points to the code units of the string followed by the terminating NUL;
  \<^verbatim>\<open>GetCount()\<close> is a 32-bit \<^verbatim>\<open>COUNT_T\<close>. \<^verbatim>\<open>memcpy(dst, src, n)\<close> copies the first \<open>n\<close>
  bytes of the source; the sources below hold that many bytes when the metadata memory
  holds \<open>evt_metadataLength\<close> bytes.
\<close>

definition bytes_of_WCHAR :: "WCHAR \<Rightarrow> BYTE list" where
  "bytes_of_WCHAR c = [ucast c, ucast (drop_bit 8 c)]"

definition bytes_of_uint32 :: "32 word \<Rightarrow> BYTE list" where
  "bytes_of_uint32 w = [ucast w, ucast (drop_bit 8 w), ucast (drop_bit 16 w), ucast (drop_bit 24 w)]"

definition GetCount :: "wstring \<Rightarrow> 32 word" where
  "GetCount s = of_nat (length s)"

definition GetUnicode :: "wstring \<Rightarrow> BYTE list" where
  "GetUnicode s = concat (map bytes_of_WCHAR (s @ [0]))"

definition memcpy :: "BYTE list \<Rightarrow> 32 word \<Rightarrow> BYTE list" where
  "memcpy src n = take (unat n) src"

text \<open>
  \<^verbatim>\<open>BuildEventMetadataEvent\<close>. \<open>metadataEvent\<close> is \<^verbatim>\<open>*m_pMetadataEvent\<close> and \<open>threadId\<close>
  what \<^verbatim>\<open>GetCurrentThreadId()\<close> returns. Both sizes are \<^verbatim>\<open>unsigned int\<close>: the sums are
  truncated to 32 bits. The buffer has \<open>instancePayloadSize\<close> bytes and the five
  \<^verbatim>\<open>memcpy\<close> calls write \<open>providerNameLength + 4 + 4 + 4 + payloadLength\<close> bytes from its
  start; writing past the end of the buffer is the error \<open>BufferOverrun\<close>.
\<close>

definition BuildEventMetadataEvent :: "state \<Rightarrow> EventPipeEvent \<Rightarrow> 32 word \<Rightarrow> EventPipeEventInstance \<Rightarrow> error + EventPipeEventInstance" where
  "BuildEventMetadataEvent s metadataEvent threadId sourceInstance =
     (let sourceEvent = inst_pEvent sourceInstance;
          providerName = prov_providerName (heap s (evt_pProvider sourceEvent));
          eventID = evt_eventID sourceEvent;
          eventVersion = evt_eventVersion sourceEvent;
          pPayloadData = evt_pMetadata sourceEvent;
          payloadLength = evt_metadataLength sourceEvent;
          providerNameLength = (GetCount providerName + 1) * 2;
          instancePayloadSize = providerNameLength + 4 + 4 + 4 + payloadLength;
          pInstancePayload =
            memcpy (GetUnicode providerName) providerNameLength @
            memcpy (bytes_of_uint32 eventID) 4 @
            memcpy (bytes_of_uint32 eventVersion) 4 @
            memcpy (bytes_of_uint32 payloadLength) 4 @
            memcpy pPayloadData payloadLength
      in if unat providerNameLength + 4 + 4 + 4 + unat payloadLength \<le> unat instancePayloadSize
         then Inr \<lparr>inst_pEvent = metadataEvent, inst_threadID = threadId,
                   inst_pData = pInstancePayload, inst_dataLength = instancePayloadSize,
                   inst_timeStamp = inst_timeStamp sourceInstance\<rparr>
         else Inl BufferOverrun)"

text \<open>
  The decoder of the documented wire layout (spec section 6), written from the spec's
  words and not from the source: the provider name as UTF-16 code units up to the NUL
  unit, three little-endian \<^verbatim>\<open>uint32\<close> fields (event ID, event version, schema blob
  length), then exactly that many bytes of schema blob.
\<close>

definition WCHAR_of_bytes :: "BYTE \<Rightarrow> BYTE \<Rightarrow> WCHAR" where
  "WCHAR_of_bytes b0 b1 = ucast b0 OR push_bit 8 (ucast b1)"

definition uint32_of_bytes :: "BYTE \<Rightarrow> BYTE \<Rightarrow> BYTE \<Rightarrow> BYTE \<Rightarrow> 32 word" where
  "uint32_of_bytes b0 b1 b2 b3 =
     ucast b0 OR push_bit 8 (ucast b1) OR push_bit 16 (ucast b2) OR push_bit 24 (ucast b3)"

fun read_wstring :: "BYTE list \<Rightarrow> (wstring \<times> BYTE list) option" where
  "read_wstring (b0 # b1 # rest) =
     (if WCHAR_of_bytes b0 b1 = 0 then Some ([], rest)
      else (case read_wstring rest of
              None \<Rightarrow> None
            | Some (cs, rest') \<Rightarrow> Some (WCHAR_of_bytes b0 b1 # cs, rest')))"
| "read_wstring _ = None"

fun read_uint32 :: "BYTE list \<Rightarrow> (32 word \<times> BYTE list) option" where
  "read_uint32 (b0 # b1 # b2 # b3 # rest) = Some (uint32_of_bytes b0 b1 b2 b3, rest)"
| "read_uint32 _ = None"

definition decode_metadata :: "BYTE list \<Rightarrow> (wstring \<times> 32 word \<times> 32 word \<times> 32 word \<times> BYTE list) option" where
  "decode_metadata bs =
     (case read_wstring bs of
        None \<Rightarrow> None
      | Some (providerName, r1) \<Rightarrow>
          (case read_uint32 r1 of
             None \<Rightarrow> None
           | Some (eventID, r2) \<Rightarrow>
               (case read_uint32 r2 of
                  None \<Rightarrow> None
                | Some (eventVersion, r3) \<Rightarrow>
                    (case read_uint32 r3 of
                       None \<Rightarrow> None
                     | Some (schemaBlobLength, r4) \<Rightarrow>
                         if length r4 = unat schemaBlobLength
                         then Some (providerName, eventID, eventVersion, schemaBlobLength, r4)
                         else None))))"

subsection \<open>Invariant and auxiliary notions\<close>

text \<open>The addresses the provider list holds.\<close>

definition registered :: "state \<Rightarrow> addr set" where
  "registered s = (case m_pProviderList s of None \<Rightarrow> {} | Some ps \<Rightarrow> set ps)"

text \<open>No two elements of the provider list are providers of the same name.\<close>

definition names_unique :: "state \<Rightarrow> bool" where
  "names_unique s =
     (case m_pProviderList s of
        None \<Rightarrow> True
      | Some ps \<Rightarrow> distinct (map (\<lambda>p. prov_providerName (heap s p)) ps))"

text \<open>What one pass of the loop of \<^verbatim>\<open>Enable\<close> does to one provider object.\<close>

definition apply_filter :: "EventPipeEnabledProviderList \<Rightarrow> EventPipeProvider \<Rightarrow> EventPipeProvider" where
  "apply_filter l p =
     (case GetEnabledProvider l p of
        None \<Rightarrow> p
      | Some e \<Rightarrow> SetConfiguration True (m_keywords e) (m_loggingLevel e) p)"

subsection \<open>Concrete objects\<close>

text \<open>
  A memory with providers named A, B, A and C at the addresses 0 to 3 (the last one
  flagged for deferred deletion), a provider whose counted name is A, NUL, B at the
  address 5, and providers named Foo elsewhere; the configuration
  after construction and the registration of 0, 1 and 3; the filter of the spec's
  example; and source events for the metadata encoder.
\<close>

definition nul_name :: wstring where
  "nul_name = [0x41, 0, 0x42]"

definition ex_heap :: "addr \<Rightarrow> EventPipeProvider" where
  "ex_heap =
     (\<lambda>a. EventPipeProvider_ctor (W ''Foo'') None None)
       (0 := EventPipeProvider_ctor (W ''A'') None None,
        1 := EventPipeProvider_ctor (W ''B'') None None,
        2 := EventPipeProvider_ctor (W ''A'') None None,
        3 := (EventPipeProvider_ctor (W ''C'') None None)\<lparr>prov_deleteDeferred := True\<rparr>,
        5 := EventPipeProvider_ctor nul_name None None)"

definition ex_state :: state where
  "ex_state =
     snd (RegisterProvider 3 (snd (RegisterProvider 1 (snd (RegisterProvider 0
       (EventPipeConfiguration_ctor ex_heap))))))"

text \<open>The same configuration after the provider at the address 5 has registered too.\<close>

definition ex_state_nul :: state where
  "ex_state_nul = snd (RegisterProvider 5 ex_state)"

definition ex_filters :: "EventPipeProviderConfiguration list" where
  "ex_filters =
     [\<lparr>cfg_pProviderName = W ''A'', cfg_keywords = 0xFF, cfg_loggingLevel = Informational\<rparr>]"

definition ex_filters_B :: "EventPipeProviderConfiguration list" where
  "ex_filters_B =
     [\<lparr>cfg_pProviderName = W ''B'', cfg_keywords = 0xFF, cfg_loggingLevel = Informational\<rparr>]"

text \<open>
  A run within the session protocol after which a registered provider is enabled while
  the session is disabled: B is enabled by a session, unregisters, the session is
  disabled, and B registers again.
\<close>

definition ex_state_reregistered :: state where
  "ex_state_reregistered =
     snd (RegisterProvider 1 (Disable (snd (UnregisterProvider 1
       (Enable 0 10 ex_filters_B ex_state)))))"

definition ex_metadataEvent :: EventPipeEvent where
  "ex_metadataEvent =
     \<lparr>evt_pProvider = 6, evt_eventID = 0, evt_eventVersion = 0, evt_pMetadata = [],
      evt_metadataLength = 0\<rparr>"

definition ex_sourceInstance :: EventPipeEventInstance where
  "ex_sourceInstance =
     \<lparr>inst_pEvent = \<lparr>evt_pProvider = 4, evt_eventID = 7, evt_eventVersion = 1,
                     evt_pMetadata = [0x01, 0x02, 0x03], evt_metadataLength = 3\<rparr>,
      inst_threadID = 1, inst_pData = [], inst_dataLength = 0, inst_timeStamp = 1000\<rparr>"

text \<open>The same event of the provider whose name is A, NUL, B.\<close>

definition nul_sourceInstance :: EventPipeEventInstance where
  "nul_sourceInstance =
     \<lparr>inst_pEvent = \<lparr>evt_pProvider = 5, evt_eventID = 7, evt_eventVersion = 1,
                     evt_pMetadata = [0x01, 0x02, 0x03], evt_metadataLength = 3\<rparr>,
      inst_threadID = 1, inst_pData = [], inst_dataLength = 0, inst_timeStamp = 1000\<rparr>"

text \<open>A source event whose schema blob has \<open>2^32 - 10\<close> bytes.\<close>

definition big_sourceInstance :: EventPipeEventInstance where
  "big_sourceInstance =
     \<lparr>inst_pEvent = \<lparr>evt_pProvider = 4, evt_eventID = 7, evt_eventVersion = 1,
                     evt_pMetadata = replicate 4294967286 0, evt_metadataLength = 4294967286\<rparr>,
      inst_threadID = 1, inst_pData = [], inst_dataLength = 0, inst_timeStamp = 1000\<rparr>"

section \<open>Properties of the operations\<close>

subsection \<open>Provider objects and filters\<close>

lemma SetConfiguration_name [simp]:
  "prov_providerName (SetConfiguration e k v p) = prov_providerName p"
  by (simp add: SetConfiguration_def)

lemma SetConfiguration_deleteDeferred [simp]:
  "prov_deleteDeferred (SetConfiguration e k v p) = prov_deleteDeferred p"
  by (simp add: SetConfiguration_def)

lemma SetConfiguration_twice [simp]:
  "SetConfiguration e k v (SetConfiguration e' k' v' p) = SetConfiguration e k v p"
  by (simp add: SetConfiguration_def)

text \<open>On names without a NUL code unit \<^verbatim>\<open>wcscmp\<close> decides equality of the names.\<close>

lemma wcs_no_NUL: "0 \<notin> set a \<Longrightarrow> wcs a = a"
  by (auto simp: wcs_def takeWhile_eq_all_conv)

lemma wcscmp_equal_no_NUL:
  "0 \<notin> set a \<Longrightarrow> 0 \<notin> set b \<Longrightarrow> wcscmp_equal a b = (a = b)"
  by (simp add: wcscmp_equal_def wcs_no_NUL)

text \<open>The filter found for a provider depends on the provider's name only.\<close>

lemma GetEnabledProvider_name_only:
  "prov_providerName p = prov_providerName q \<Longrightarrow> GetEnabledProvider l p = GetEnabledProvider l q"
  by (simp add: GetEnabledProvider_def split: option.splits)

lemma apply_filter_name [simp]: "prov_providerName (apply_filter l p) = prov_providerName p"
  by (simp add: apply_filter_def split: option.splits)

lemma apply_filter_idem [simp]: "apply_filter l (apply_filter l p) = apply_filter l p"
proof -
  have "GetEnabledProvider l (apply_filter l p) = GetEnabledProvider l p"
    by (rule GetEnabledProvider_name_only) simp
  then show ?thesis
    by (simp add: apply_filter_def split: option.splits)
qed

lemma find_over_map: "find P (map f xs) = map_option f (find (\<lambda>x. P (f x)) xs)"
  by (induction xs) simp_all

text \<open>What a filter list built by the constructor answers.\<close>

lemma GetEnabledProvider_ctor:
  "GetEnabledProvider (EventPipeEnabledProviderList_ctor perfTracing filters) p =
     (if perfTracing AND 1 = 1
      then Some (EventPipeEnabledProvider_Set None 0xFFFFFFFFFFFFFFFF Verbose)
      else map_option (\<lambda>c. EventPipeEnabledProvider_Set (Some (cfg_pProviderName c))
                              (cfg_keywords c) (cfg_loggingLevel c))
             (find (\<lambda>c. wcscmp_equal (prov_providerName p) (cfg_pProviderName c)) filters))"
  by (cases filters)
     (simp_all add: GetEnabledProvider_def EventPipeEnabledProviderList_ctor_def find_over_map
        EventPipeEnabledProvider_Set_def)

lemma apply_filter_ctor:
  "apply_filter (EventPipeEnabledProviderList_ctor perfTracing filters) p =
     (if perfTracing AND 1 = 1
      then SetConfiguration True 0xFFFFFFFFFFFFFFFF Verbose p
      else case find (\<lambda>c. wcscmp_equal (prov_providerName p) (cfg_pProviderName c)) filters of
             Some c \<Rightarrow> SetConfiguration True (cfg_keywords c) (cfg_loggingLevel c) p
           | None \<Rightarrow> p)"
  by (simp add: apply_filter_def GetEnabledProvider_ctor EventPipeEnabledProvider_Set_def
      split: option.splits)

subsection \<open>The sweeps of Enable and Disable in closed form\<close>

lemma Enable_loop_closed:
  "Enable_loop l ps h = (\<lambda>a. if a \<in> set ps then apply_filter l (h a) else h a)"
proof (induction ps arbitrary: h)
  case Nil
  show ?case by simp
next
  case (Cons p ps)
  have step: "(case GetEnabledProvider l (h p) of None \<Rightarrow> h
          | Some e \<Rightarrow> h(p := SetConfiguration True (m_keywords e) (m_loggingLevel e) (h p)))
        = h(p := apply_filter l (h p))"
    by (simp add: apply_filter_def split: option.splits)
  show ?case
    unfolding Enable_loop.simps step Cons.IH
    by (rule ext) simp
qed

lemma Disable_loop_closed:
  "Disable_loop ps h = (\<lambda>a. if a \<in> set ps then SetConfiguration False 0 Critical (h a) else h a)"
proof (induction ps arbitrary: h)
  case Nil
  show ?case by simp
next
  case (Cons p ps)
  show ?case
    unfolding Disable_loop.simps Cons.IH
    by (rule ext) simp
qed

lemma heap_Enable:
  "heap (Enable perfTracing mb filters s) a =
     (if a \<in> registered s
      then apply_filter (EventPipeEnabledProviderList_ctor perfTracing filters) (heap s a)
      else heap s a)"
  by (cases "m_pProviderList s") (simp_all add: Enable_def Let_def Enable_loop_closed registered_def)

lemma fields_Enable [simp]:
  "m_pProviderList (Enable perfTracing mb filters s) = m_pProviderList s"
  "m_enabled (Enable perfTracing mb filters s) = True"
  "m_rundownEnabled (Enable perfTracing mb filters s) = m_rundownEnabled s"
  "m_pConfigProvider (Enable perfTracing mb filters s) = m_pConfigProvider s"
  "m_pEnabledProviderList (Enable perfTracing mb filters s) =
     Some (EventPipeEnabledProviderList_ctor perfTracing filters)"
  "m_circularBufferSizeInBytes (Enable perfTracing mb filters s) = ucast (mb * 1024 * 1024)"
  by (cases "m_pProviderList s"; simp add: Enable_def Let_def)+

lemma heap_Disable:
  "heap (Disable s) a =
     (if a \<in> registered s then SetConfiguration False 0 Critical (heap s a) else heap s a)"
  by (cases "m_pProviderList s") (simp_all add: Disable_def Disable_loop_closed registered_def)

lemma fields_Disable [simp]:
  "m_pProviderList (Disable s) = m_pProviderList s"
  "m_enabled (Disable s) = False"
  "m_rundownEnabled (Disable s) = False"
  "m_pConfigProvider (Disable s) = m_pConfigProvider s"
  "m_pEnabledProviderList (Disable s) = None"
  "m_circularBufferSizeInBytes (Disable s) = m_circularBufferSizeInBytes s"
  by (cases "m_pProviderList s"; simp add: Disable_def)+

lemma registered_heap_update [simp]: "registered (s\<lparr>heap := h\<rparr>) = registered s"
  by (simp add: registered_def)

subsection \<open>Registration\<close>

lemma RegisterProvider_found:
  "GetProviderNoLock (prov_providerName (heap s provider)) s = Some e \<Longrightarrow>
   RegisterProvider provider s = (False, s)"
  by (simp add: RegisterProvider_def)

lemma RegisterProvider_fresh:
  "GetProviderNoLock (prov_providerName (heap s q)) s = None \<Longrightarrow>
   RegisterProvider q s =
     (True, s\<lparr>m_pProviderList := map_option (\<lambda>ps. ps @ [q]) (m_pProviderList s),
              heap := (heap s)(q := (case m_pEnabledProviderList s of
                                       None \<Rightarrow> heap s q
                                     | Some l \<Rightarrow> apply_filter l (heap s q)))\<rparr>)"
  by (cases "m_pProviderList s"; cases "m_pEnabledProviderList s")
     (auto simp: RegisterProvider_def apply_filter_def Let_def split: option.splits)

subsection \<open>Unique names\<close>

lemma names_unique_distinct:
  "names_unique s \<Longrightarrow> m_pProviderList s = Some qs \<Longrightarrow> distinct qs"
  by (simp add: names_unique_def distinct_map)

lemma names_unique_inj:
  "names_unique s \<Longrightarrow> m_pProviderList s = Some qs \<Longrightarrow> p \<in> set qs \<Longrightarrow> q \<in> set qs \<Longrightarrow>
   prov_providerName (heap s p) = prov_providerName (heap s q) \<Longrightarrow> p = q"
  by (auto simp: names_unique_def distinct_map inj_on_def)

text \<open>The invariant reads the list and the names of the listed providers, nothing else.\<close>

lemma names_unique_cong:
  assumes "m_pProviderList s' = m_pProviderList s"
    and "\<And>p. p \<in> registered s \<Longrightarrow> prov_providerName (heap s' p) = prov_providerName (heap s p)"
  shows "names_unique s' = names_unique s"
proof (cases "m_pProviderList s")
  case None
  then show ?thesis using assms(1) by (simp add: names_unique_def)
next
  case (Some ps)
  have eq: "map (\<lambda>p. prov_providerName (heap s' p)) ps = map (\<lambda>p. prov_providerName (heap s p)) ps"
    using assms(2) Some by (simp add: registered_def)
  have "names_unique s' = distinct (map (\<lambda>p. prov_providerName (heap s' p)) ps)"
    using assms(1) Some by (simp add: names_unique_def)
  also have "\<dots> = distinct (map (\<lambda>p. prov_providerName (heap s p)) ps)"
    by (simp only: eq)
  also have "\<dots> = names_unique s"
    using Some by (simp add: names_unique_def)
  finally show ?thesis .
qed

lemma names_unique_RegisterProvider:
  assumes "names_unique s"
  shows "names_unique (snd (RegisterProvider q s))"
proof (cases "GetProviderNoLock (prov_providerName (heap s q)) s")
  case (Some e)
  then show ?thesis using assms by (simp add: RegisterProvider_found)
next
  case None
  let ?v = "case m_pEnabledProviderList s of None \<Rightarrow> heap s q | Some l \<Rightarrow> apply_filter l (heap s q)"
  have v: "prov_providerName ?v = prov_providerName (heap s q)"
    by (simp split: option.splits)
  show ?thesis
  proof (cases "m_pProviderList s")
    case n: None
    then show ?thesis by (simp add: RegisterProvider_fresh [OF None] names_unique_def)
  next
    case (Some ps)
    have fresh: "prov_providerName (heap s q) \<notin> (\<lambda>p. prov_providerName (heap s p)) ` set ps"
      using None Some by (auto simp: GetProviderNoLock_def find_None_iff)
    have eq: "map (\<lambda>p. prov_providerName (((heap s)(q := ?v)) p)) (ps @ [q]) =
          map (\<lambda>p. prov_providerName (heap s p)) (ps @ [q])"
      using v by simp
    have "names_unique (snd (RegisterProvider q s)) =
            distinct (map (\<lambda>p. prov_providerName (((heap s)(q := ?v)) p)) (ps @ [q]))"
      by (simp add: RegisterProvider_fresh [OF None] names_unique_def Some)
    also have "\<dots> = distinct (map (\<lambda>p. prov_providerName (heap s p)) (ps @ [q]))"
      by (simp only: eq)
    also have "\<dots>"
      using assms fresh by (simp add: names_unique_def Some)
    finally show ?thesis .
  qed
qed

lemma names_unique_UnregisterProvider:
  "names_unique s \<Longrightarrow> names_unique (snd (UnregisterProvider p s))"
  by (cases "m_pProviderList s")
     (auto simp: UnregisterProvider_def names_unique_def distinct_map intro: inj_on_diff)

lemma names_unique_DeleteProvider:
  "names_unique s \<Longrightarrow> names_unique (DeleteProvider pp s)"
  by (cases pp) (simp_all add: DeleteProvider_def names_unique_UnregisterProvider)

lemma names_unique_heap_update:
  "a \<notin> registered s \<Longrightarrow> names_unique (s\<lparr>heap := (heap s)(a := v)\<rparr>) = names_unique s"
  by (rule names_unique_cong) auto

lemma names_unique_CreateProvider:
  "names_unique s \<Longrightarrow> a \<notin> registered s \<Longrightarrow> names_unique (snd (CreateProvider a n cb cd s))"
  by (simp add: CreateProvider_def Let_def names_unique_RegisterProvider names_unique_heap_update)

lemma names_unique_Enable: "names_unique (Enable t mb fs s) = names_unique s"
  by (rule names_unique_cong) (simp_all add: heap_Enable)

lemma names_unique_Disable [simp]: "names_unique (Disable s) = names_unique s"
  by (rule names_unique_cong) (simp_all add: heap_Disable)

lemma names_unique_DeleteDeferred_loop:
  "names_unique s \<Longrightarrow> names_unique (DeleteDeferred_loop ps s)"
  by (induction ps arbitrary: s) (simp_all add: names_unique_DeleteProvider)

lemma names_unique_DeleteDeferredProviders:
  "names_unique s \<Longrightarrow> names_unique (DeleteDeferredProviders s)"
  by (cases "m_pProviderList s")
     (simp_all add: DeleteDeferredProviders_def names_unique_DeleteDeferred_loop)

lemma names_unique_fields:
  "names_unique (s\<lparr>m_pConfigProvider := c\<rparr>) = names_unique s"
  "names_unique (s\<lparr>m_circularBufferSizeInBytes := b\<rparr>) = names_unique s"
  "names_unique (s\<lparr>m_rundownEnabled := r\<rparr>) = names_unique s"
  "names_unique (s\<lparr>m_pEnabledProviderList := l\<rparr>) = names_unique s"
  "names_unique (s\<lparr>m_pProviderList := None\<rparr>)"
  by (rule names_unique_cong; simp)+ (simp add: names_unique_def)

lemma names_unique_Initialize:
  "names_unique s \<Longrightarrow> a \<notin> registered s \<Longrightarrow> names_unique (Initialize a s)"
  using names_unique_CreateProvider [of s a s_configurationProviderName None None]
  by (cases "CreateProvider a s_configurationProviderName None None s")
     (simp add: Initialize_def names_unique_fields)

lemma names_unique_dtor: "names_unique (EventPipeConfiguration_dtor s)"
  by (simp add: EventPipeConfiguration_dtor_def Let_def names_unique_def split: option.splits)

subsection \<open>Deferred deletion\<close>

lemma heap_DeleteProvider [simp]: "heap (DeleteProvider pp s) = heap s"
  by (simp add: DeleteProvider_def UnregisterProvider_def split: option.splits)

lemma list_DeleteProvider:
  "m_pProviderList (DeleteProvider (Some p) s) = map_option (remove1 p) (m_pProviderList s)"
  by (cases "m_pProviderList s") (simp_all add: DeleteProvider_def UnregisterProvider_def remove1_idem)

lemma DeleteDeferred_loop_heap [simp]: "heap (DeleteDeferred_loop ps s) = heap s"
  by (induction ps arbitrary: s) simp_all

text \<open>
  On a list without repeated addresses the loop leaves exactly the elements it did not
  visit or found unflagged.
\<close>

lemma DeleteDeferred_loop_list:
  "m_pProviderList s = Some qs \<Longrightarrow> distinct qs \<Longrightarrow>
   m_pProviderList (DeleteDeferred_loop ps s) =
     Some (filter (\<lambda>q. \<not> (q \<in> set ps \<and> prov_deleteDeferred (heap s q))) qs)"
proof (induction ps arbitrary: s qs)
  case Nil
  then show ?case by simp
next
  case (Cons p ps)
  show ?case
  proof (cases "prov_deleteDeferred (heap s p)")
    case True
    let ?s1 = "DeleteProvider (Some p) s"
    have l1: "m_pProviderList ?s1 = Some (remove1 p qs)"
      using Cons.prems by (simp add: list_DeleteProvider)
    have d1: "distinct (remove1 p qs)"
      using Cons.prems by simp
    have "m_pProviderList (DeleteDeferred_loop ps ?s1) =
            Some (filter (\<lambda>q. \<not> (q \<in> set ps \<and> prov_deleteDeferred (heap ?s1 q))) (remove1 p qs))"
      by (rule Cons.IH [OF l1 d1])
    also have "remove1 p qs = filter (\<lambda>q. q \<noteq> p) qs"
      using Cons.prems by (simp add: distinct_remove1_removeAll removeAll_filter_not_eq) metis
    finally show ?thesis
      using True by (auto intro: filter_cong)
  next
    case False
    have "m_pProviderList (DeleteDeferred_loop ps s) =
            Some (filter (\<lambda>q. \<not> (q \<in> set ps \<and> prov_deleteDeferred (heap s q))) qs)"
      by (rule Cons.IH [OF Cons.prems])
    then show ?thesis
      using False by (auto intro: filter_cong)
  qed
qed

lemma GetProvider_Disable [simp]: "GetProvider n (Disable s) = GetProvider n s"
  by (cases "m_pProviderList s")
     (auto simp: GetProvider_def GetProviderNoLock_def heap_Disable registered_def intro: find_cong)

lemma sweep_removes_flagged:
  assumes u: "names_unique s" and g: "GetProvider n s = Some p"
    and f: "prov_deleteDeferred (heap s p)"
  shows "GetProvider n (DeleteDeferredProviders s) = None"
proof -
  from g obtain qs where qs: "m_pProviderList s = Some qs"
    by (cases "m_pProviderList s") (simp_all add: GetProvider_def GetProviderNoLock_def)
  from g qs have p: "p \<in> set qs" "prov_providerName (heap s p) = n"
    by (auto simp: GetProvider_def GetProviderNoLock_def find_Some_iff)
  have d: "distinct qs" by (rule names_unique_distinct [OF u qs])
  have l: "m_pProviderList (DeleteDeferredProviders s) =
             Some (filter (\<lambda>q. \<not> (q \<in> set qs \<and> prov_deleteDeferred (heap s q))) qs)"
    by (simp add: DeleteDeferredProviders_def qs DeleteDeferred_loop_list [OF qs d])
  have h: "heap (DeleteDeferredProviders s) = heap s"
    by (simp add: DeleteDeferredProviders_def qs)
  have flagged: "prov_deleteDeferred (heap s q)"
    if "q \<in> set qs" "prov_providerName (heap s q) = n" for q
  proof -
    have "q = p"
      using names_unique_inj [OF u qs that(1) p(1)] that(2) p(2) by simp
    then show ?thesis using f by simp
  qed
  show ?thesis
    using flagged by (auto simp: GetProvider_def GetProviderNoLock_def l h find_None_iff)
qed

subsection \<open>Bytes\<close>

lemma WCHAR_roundtrip: "WCHAR_of_bytes (ucast c) (ucast (drop_bit 8 c)) = (c :: WCHAR)"
  unfolding WCHAR_of_bytes_def
  by (rule bit_word_eqI) (auto simp: bit_simps)

lemma uint32_roundtrip:
  "uint32_of_bytes (ucast w) (ucast (drop_bit 8 w)) (ucast (drop_bit 16 w)) (ucast (drop_bit 24 w)) = (w :: 32 word)"
  unfolding uint32_of_bytes_def
  apply (rule bit_word_eqI)
  apply (auto simp: bit_simps)
  subgoal for n by (cases "n < 24") (simp_all add: not_less)
  done

lemma WCHAR_of_bytes_zero [simp]: "WCHAR_of_bytes 0 0 = 0"
  by (simp add: WCHAR_of_bytes_def)

lemma length_bytes_of_uint32 [simp]: "length (bytes_of_uint32 w) = 4"
  by (simp add: bytes_of_uint32_def)

lemma read_uint32_bytes: "read_uint32 (bytes_of_uint32 w @ rest) = Some (w, rest)"
  by (simp add: bytes_of_uint32_def uint32_roundtrip)

lemma read_wstring_GetUnicode:
  "0 \<notin> set cs \<Longrightarrow> read_wstring (GetUnicode cs @ rest) = Some (cs, rest)"
  by (induction cs) (auto simp: GetUnicode_def bytes_of_WCHAR_def WCHAR_roundtrip)

lemma length_GetUnicode: "length (GetUnicode cs) = (length cs + 1) * 2"
  by (induction cs) (simp_all add: GetUnicode_def bytes_of_WCHAR_def)

lemma GetUnicode_layout: "GetUnicode cs = concat (map bytes_of_WCHAR cs) @ [0, 0]"
  by (simp add: GetUnicode_def bytes_of_WCHAR_def)

subsection \<open>The concrete objects evaluated\<close>

lemma W_distinct:
  "W ''A'' \<noteq> W ''B''" "W ''A'' \<noteq> W ''C''" "W ''B'' \<noteq> W ''C''"
  "W ''B'' \<noteq> W ''A''" "W ''C'' \<noteq> W ''A''" "W ''C'' \<noteq> W ''B''"
  by (simp_all add: W_def)

lemma wcs_simps:
  "wcs (W ''A'') = W ''A''" "wcs (W ''B'') = W ''B''" "wcs (W ''C'') = W ''C''"
  "wcs (W ''Foo'') = W ''Foo''" "wcs nul_name = W ''A''"
  by (simp_all add: wcs_def W_def nul_name_def)

lemma nul_name_distinct:
  "nul_name \<noteq> W ''A''" "nul_name \<noteq> W ''B''" "nul_name \<noteq> W ''C''"
  "W ''A'' \<noteq> nul_name" "W ''B'' \<noteq> nul_name" "W ''C'' \<noteq> nul_name"
  by (simp_all add: W_def nul_name_def)

lemma ex_heap_simps:
  "ex_heap 0 = EventPipeProvider_ctor (W ''A'') None None"
  "ex_heap 1 = EventPipeProvider_ctor (W ''B'') None None"
  "ex_heap (Suc 0) = EventPipeProvider_ctor (W ''B'') None None"
  "ex_heap 2 = EventPipeProvider_ctor (W ''A'') None None"
  "ex_heap 3 = (EventPipeProvider_ctor (W ''C'') None None)\<lparr>prov_deleteDeferred := True\<rparr>"
  "ex_heap 4 = EventPipeProvider_ctor (W ''Foo'') None None"
  "ex_heap 5 = EventPipeProvider_ctor nul_name None None"
  by (simp_all add: ex_heap_def)

lemma ex_state_eq:
  "ex_state = (EventPipeConfiguration_ctor ex_heap)\<lparr>m_pProviderList := Some [0, 1, 3]\<rparr>"
  by (simp add: ex_state_def RegisterProvider_def GetProviderNoLock_def EventPipeConfiguration_ctor_def
      ex_heap_simps EventPipeProvider_ctor_def W_distinct)

lemma ex_state_reregistered_eq:
  "ex_state_reregistered =
     (EventPipeConfiguration_ctor
        (ex_heap(0 := SetConfiguration False 0 Critical (ex_heap 0),
                 1 := SetConfiguration True 0xFF Informational (ex_heap 1),
                 3 := SetConfiguration False 0 Critical (ex_heap 3))))
     \<lparr>m_circularBufferSizeInBytes := 10485760, m_pProviderList := Some [0, 3, 1]\<rparr>"
  by (simp add: ex_state_reregistered_def ex_state_eq Enable_def Disable_def RegisterProvider_def
      UnregisterProvider_def GetProviderNoLock_def EventPipeConfiguration_ctor_def
      EventPipeEnabledProviderList_ctor_def GetEnabledProvider_def EventPipeEnabledProvider_Set_def
      ex_filters_B_def ex_heap_simps EventPipeProvider_ctor_def SetConfiguration_def W_distinct
      wcscmp_equal_def wcs_simps fun_eq_iff)

lemma ex_state_nul_eq:
  "ex_state_nul = (EventPipeConfiguration_ctor ex_heap)\<lparr>m_pProviderList := Some [0, 1, 3, 5]\<rparr>"
  by (simp add: ex_state_nul_def ex_state_eq RegisterProvider_def GetProviderNoLock_def
      EventPipeConfiguration_ctor_def ex_heap_simps EventPipeProvider_ctor_def nul_name_distinct)

section \<open>The claims\<close>

subsection \<open>Filters applied by Enable and by registration\<close>

text \<open>
  Claim C1, as amended. The claim says that after \<^verbatim>\<open>Enable\<close> every registered provider
  whose name exactly matches a filter is enabled with that filter's keywords and level,
  and every other registered provider is disabled. The code decides differently in three
  places: with the start-up flag set the filter list is the catch-all; the provider's name
  and a filter's name are compared by \<^verbatim>\<open>wcscmp\<close>, each up to its first NUL code unit;
  and \<^verbatim>\<open>Enable\<close> never calls \<^verbatim>\<open>SetConfiguration\<close> on a provider without a match. What
  holds: for a registered provider \<open>p\<close>, after \<^verbatim>\<open>Enable\<close>,
  \<^item> if the flag's low bit is set, \<open>p\<close> is enabled with all keyword bits and level Verbose;
  \<^item> otherwise, if \<^verbatim>\<open>wcscmp\<close> finds \<open>p\<close>'s name equal to the name of some filter, \<open>p\<close> is
    enabled with the keywords and the level of the first such filter;
  \<^item> otherwise \<open>p\<close> is left as it was (so it remains disabled if it was disabled).
  The same holds for a provider \<open>q\<close> of an unregistered name that registers while the
  filter list of such a session is set, and its registration succeeds. For two names
  without a NUL code unit, \<^verbatim>\<open>wcscmp\<close> finds them equal exactly when they are the same.
\<close>

theorem Enable_configures_providers:
  "(m_pProviderList s = Some ps \<and> p \<in> set ps \<longrightarrow>
      heap (Enable perfTracing circularBufferSizeInMB filters s) p =
        (if perfTracing AND 1 = 1
         then SetConfiguration True 0xFFFFFFFFFFFFFFFF Verbose (heap s p)
         else case find (\<lambda>c. wcscmp_equal (prov_providerName (heap s p)) (cfg_pProviderName c))
                     filters of
                Some c \<Rightarrow> SetConfiguration True (cfg_keywords c) (cfg_loggingLevel c) (heap s p)
              | None \<Rightarrow> heap s p)) \<and>
   (m_pEnabledProviderList s = Some (EventPipeEnabledProviderList_ctor perfTracing filters) \<and>
    GetProviderNoLock (prov_providerName (heap s q)) s = None \<longrightarrow>
      fst (RegisterProvider q s) \<and>
      heap (snd (RegisterProvider q s)) q =
        (if perfTracing AND 1 = 1
         then SetConfiguration True 0xFFFFFFFFFFFFFFFF Verbose (heap s q)
         else case find (\<lambda>c. wcscmp_equal (prov_providerName (heap s q)) (cfg_pProviderName c))
                     filters of
                Some c \<Rightarrow> SetConfiguration True (cfg_keywords c) (cfg_loggingLevel c) (heap s q)
              | None \<Rightarrow> heap s q)) \<and>
   (0 \<notin> set a \<and> 0 \<notin> set b \<longrightarrow> wcscmp_equal a b = (a = b))"
proof (intro conjI impI)
  assume a: "m_pProviderList s = Some ps \<and> p \<in> set ps"
  have "heap (Enable perfTracing circularBufferSizeInMB filters s) p =
          apply_filter (EventPipeEnabledProviderList_ctor perfTracing filters) (heap s p)"
    using a by (simp add: heap_Enable registered_def)
  then show "heap (Enable perfTracing circularBufferSizeInMB filters s) p =
        (if perfTracing AND 1 = 1
         then SetConfiguration True 0xFFFFFFFFFFFFFFFF Verbose (heap s p)
         else case find (\<lambda>c. wcscmp_equal (prov_providerName (heap s p)) (cfg_pProviderName c))
                     filters of
                Some c \<Rightarrow> SetConfiguration True (cfg_keywords c) (cfg_loggingLevel c) (heap s p)
              | None \<Rightarrow> heap s p)"
    by (simp only: apply_filter_ctor)
next
  assume b: "m_pEnabledProviderList s = Some (EventPipeEnabledProviderList_ctor perfTracing filters) \<and>
    GetProviderNoLock (prov_providerName (heap s q)) s = None"
  note r = RegisterProvider_fresh [OF conjunct2 [OF b]]
  show "fst (RegisterProvider q s)"
    by (simp add: r)
  have "heap (snd (RegisterProvider q s)) q =
          apply_filter (EventPipeEnabledProviderList_ctor perfTracing filters) (heap s q)"
    using b by (simp add: r)
  then show "heap (snd (RegisterProvider q s)) q =
        (if perfTracing AND 1 = 1
         then SetConfiguration True 0xFFFFFFFFFFFFFFFF Verbose (heap s q)
         else case find (\<lambda>c. wcscmp_equal (prov_providerName (heap s q)) (cfg_pProviderName c))
                     filters of
                Some c \<Rightarrow> SetConfiguration True (cfg_keywords c) (cfg_loggingLevel c) (heap s q)
              | None \<Rightarrow> heap s q)"
    by (simp only: apply_filter_ctor)
next
  assume "0 \<notin> set a \<and> 0 \<notin> set b"
  then show "wcscmp_equal a b = (a = b)"
    by (simp add: wcscmp_equal_no_NUL)
qed

text \<open>
  The claim as stated fails three times. With the flag set and the filter list naming
  only A, the registered provider B, which matches no filter, is enabled with all
  keyword bits. With the flag clear, B is registered and already enabled when the session
  starts (the run \<open>ex_state_reregistered\<close>); \<^verbatim>\<open>Enable\<close> with a filter for A only leaves it
  enabled. And with the flag clear, the registered provider whose name is A, NUL, B,
  which is the name of no filter, is enabled by the filter for A.
\<close>

theorem Enable_configures_providers_counterexample:
  "1 \<in> registered ex_state \<and>
   prov_providerName (heap ex_state 1) = W ''B'' \<and>
   find (\<lambda>c. cfg_pProviderName c = W ''B'') ex_filters = None \<and>
   prov_enabled (heap (Enable 1 10 ex_filters ex_state) 1) \<and>
   prov_keywords (heap (Enable 1 10 ex_filters ex_state) 1) = 0xFFFFFFFFFFFFFFFF \<and>
   \<not> m_enabled ex_state_reregistered \<and>
   1 \<in> registered ex_state_reregistered \<and>
   prov_providerName (heap ex_state_reregistered 1) = W ''B'' \<and>
   prov_enabled (heap (Enable 0 10 ex_filters ex_state_reregistered) 1) \<and>
   5 \<in> registered ex_state_nul \<and>
   prov_providerName (heap ex_state_nul 5) = [0x41, 0, 0x42] \<and>
   \<not> prov_enabled (heap ex_state_nul 5) \<and>
   find (\<lambda>c. cfg_pProviderName c = [0x41, 0, 0x42]) ex_filters = None \<and>
   prov_enabled (heap (Enable 0 10 ex_filters ex_state_nul) 5) \<and>
   prov_keywords (heap (Enable 0 10 ex_filters ex_state_nul) 5) = 0xFF"
  by (simp add: ex_state_reregistered_eq ex_state_eq ex_state_nul_eq registered_def heap_Enable
      apply_filter_ctor EventPipeConfiguration_ctor_def ex_filters_def ex_heap_simps
      EventPipeProvider_ctor_def SetConfiguration_def W_distinct wcscmp_equal_def wcs_simps)
     (simp add: nul_name_def W_def)

text \<open>
  The spec's example: after \<^verbatim>\<open>Enable(10, [{"A", 0xFF, Informational}])\<close> the registered A
  has that configuration and B is as before, disabled; with the flag set B gets the
  catch-all configuration; and A registering after the same \<^verbatim>\<open>Enable\<close> is configured too.
\<close>

theorem Enable_configures_providers_witness:
  "heap (Enable 0 10 ex_filters ex_state) 0 = SetConfiguration True 0xFF Informational (ex_heap 0) \<and>
   heap (Enable 0 10 ex_filters ex_state) 1 = ex_heap 1 \<and>
   \<not> prov_enabled (ex_heap 1) \<and>
   heap (Enable 1 10 ex_filters ex_state) 1 =
     SetConfiguration True 0xFFFFFFFFFFFFFFFF Verbose (ex_heap 1) \<and>
   fst (RegisterProvider 0 (Enable 0 10 ex_filters (EventPipeConfiguration_ctor ex_heap))) \<and>
   heap (snd (RegisterProvider 0 (Enable 0 10 ex_filters (EventPipeConfiguration_ctor ex_heap)))) 0 =
     SetConfiguration True 0xFF Informational (ex_heap 0) \<and>
   (0 :: WCHAR) \<notin> set (W ''A'') \<and> (0 :: WCHAR) \<notin> set (W ''B'') \<and>
   \<not> wcscmp_equal (W ''A'') (W ''B'')"
  using
    Enable_configures_providers [where s = ex_state and ps = "[0, 1, 3]" and p = 0
      and perfTracing = 0 and circularBufferSizeInMB = 10 and filters = ex_filters
      and q = 0 and a = "W ''A''" and b = "W ''B''"]
    Enable_configures_providers [where s = ex_state and ps = "[0, 1, 3]" and p = 1
      and perfTracing = 0 and circularBufferSizeInMB = 10 and filters = ex_filters
      and q = 0 and a = "W ''A''" and b = "W ''B''"]
    Enable_configures_providers [where s = ex_state and ps = "[0, 1, 3]" and p = 1
      and perfTracing = 1 and circularBufferSizeInMB = 10 and filters = ex_filters
      and q = 0 and a = "W ''A''" and b = "W ''B''"]
    Enable_configures_providers [where s = "Enable 0 10 ex_filters (EventPipeConfiguration_ctor ex_heap)"
      and ps = "[]" and p = 0
      and perfTracing = 0 and circularBufferSizeInMB = 10 and filters = ex_filters
      and q = 0 and a = "W ''A''" and b = "W ''B''"]
  by (simp add: ex_state_eq heap_Enable apply_filter_ctor registered_def GetProviderNoLock_def
      EventPipeConfiguration_ctor_def ex_filters_def ex_heap_simps EventPipeProvider_ctor_def
      W_distinct wcscmp_equal_def wcs_simps)
     (simp add: W_def)

subsection \<open>The metadata event\<close>

text \<open>
  Claim C2, as amended. The claim fails in two ways, one by the design of the layout and
  one by a defect of the size computation. The provider name is written with its count
  and read back up to its first NUL, so a name that contains a NUL code unit is not
  recovered: the decoding half holds for names without one. And the encoder computes its
  sizes in \<^verbatim>\<open>unsigned int\<close> without a check: the statement is for the source events whose
  encoded size \<open>(length N + 1) * 2 + 4 + 4 + 4 + L\<close> is below \<open>2^32\<close>, and leaves the
  others out. For such an event with provider name \<open>N\<close>, event ID \<open>I\<close>, version \<open>V\<close> and
  a schema blob \<open>B\<close> of \<open>L\<close> bytes, \<^verbatim>\<open>BuildEventMetadataEvent\<close> returns an instance whose
  payload is the code units of \<open>N\<close> (two bytes each, low byte first), a NUL unit, then
  \<open>I\<close>, \<open>V\<close> and \<open>L\<close> as four little-endian bytes each, then \<open>B\<close>; its length is the
  encoded size; the instance is of the metadata event and carries the source's time
  stamp; and, when \<open>N\<close> has no NUL code unit, the decoder of the documented layout
  recovers \<open>(N, I, V, L, B)\<close> from the payload.
\<close>

theorem BuildEventMetadataEvent_layout:
  "prov_providerName (heap s pProvider) = N \<and> length B = unat L \<and>
   (length N + 1) * 2 + 4 + 4 + 4 + unat L < 2 ^ 32 \<longrightarrow>
   (\<exists>inst.
      BuildEventMetadataEvent s metadataEvent threadId
        \<lparr>inst_pEvent = \<lparr>evt_pProvider = pProvider, evt_eventID = I, evt_eventVersion = V,
                        evt_pMetadata = B, evt_metadataLength = L\<rparr>,
         inst_threadID = t, inst_pData = d, inst_dataLength = n, inst_timeStamp = ts\<rparr> = Inr inst \<and>
      inst_pData inst =
        concat (map bytes_of_WCHAR N) @ [0, 0] @
        bytes_of_uint32 I @ bytes_of_uint32 V @ bytes_of_uint32 L @ B \<and>
      length (inst_pData inst) = (length N + 1) * 2 + 4 + 4 + 4 + unat L \<and>
      unat (inst_dataLength inst) = length (inst_pData inst) \<and>
      inst_pEvent inst = metadataEvent \<and>
      inst_timeStamp inst = ts \<and>
      (0 \<notin> set N \<longrightarrow> decode_metadata (inst_pData inst) = Some (N, I, V, L, B)))"
proof (intro impI, elim conjE)
  assume name: "prov_providerName (heap s pProvider) = N"
    and lenB: "length B = unat L" and fit: "(length N + 1) * 2 + 4 + 4 + 4 + unat L < 2 ^ 32"
  define P :: "32 word" where "P = (GetCount N + 1) * 2"
  define S :: "32 word" where "S = P + 4 + 4 + 4 + L"
  have pnl: "unat P = (length N + 1) * 2"
    using fit by (simp add: P_def GetCount_def unat_word_ariths unat_of_nat)
  have size: "unat S = (length N + 1) * 2 + 12 + unat L"
    using fit by (simp add: S_def P_def GetCount_def unat_word_ariths unat_of_nat mod_simps)
  have data: "memcpy (GetUnicode N) P @
            memcpy (bytes_of_uint32 I) 4 @ memcpy (bytes_of_uint32 V) 4 @
            memcpy (bytes_of_uint32 L) 4 @ memcpy B L
          = GetUnicode N @ bytes_of_uint32 I @ bytes_of_uint32 V @ bytes_of_uint32 L @ B"
    by (simp add: memcpy_def pnl length_GetUnicode lenB)
  have dec: "decode_metadata (GetUnicode N @ bytes_of_uint32 I @ bytes_of_uint32 V @ bytes_of_uint32 L @ B)
          = Some (N, I, V, L, B)" if "0 \<notin> set N"
    using that by (simp add: decode_metadata_def read_wstring_GetUnicode read_uint32_bytes lenB)
  have ok: "unat P + 4 + 4 + 4 + unat L \<le> unat S"
    by (simp add: pnl size)
  show "\<exists>inst.
      BuildEventMetadataEvent s metadataEvent threadId
        \<lparr>inst_pEvent = \<lparr>evt_pProvider = pProvider, evt_eventID = I, evt_eventVersion = V,
                        evt_pMetadata = B, evt_metadataLength = L\<rparr>,
         inst_threadID = t, inst_pData = d, inst_dataLength = n, inst_timeStamp = ts\<rparr> = Inr inst \<and>
      inst_pData inst =
        concat (map bytes_of_WCHAR N) @ [0, 0] @
        bytes_of_uint32 I @ bytes_of_uint32 V @ bytes_of_uint32 L @ B \<and>
      length (inst_pData inst) = (length N + 1) * 2 + 4 + 4 + 4 + unat L \<and>
      unat (inst_dataLength inst) = length (inst_pData inst) \<and>
      inst_pEvent inst = metadataEvent \<and>
      inst_timeStamp inst = ts \<and>
      (0 \<notin> set N \<longrightarrow> decode_metadata (inst_pData inst) = Some (N, I, V, L, B))"
    unfolding BuildEventMetadataEvent_def Let_def
    apply (simp only: EventPipeEventInstance.simps EventPipeEvent.simps name)
    unfolding P_def [symmetric] S_def [symmetric]
    using ok by (simp add: data dec length_GetUnicode lenB size GetUnicode_layout [symmetric])
qed

text \<open>
  The claim as stated, for every provider name, fails by the layout itself: for the
  provider whose name is A, NUL, B, event 7, version 1 and schema blob 01 02 03 (23
  bytes in all) the encoder writes the three code units and the terminator, and a reader
  of the layout takes the name to end at the first NUL: it reads the name A and does not
  recover the four fields.
\<close>

theorem BuildEventMetadataEvent_layout_counterexample:
  "prov_providerName (heap ex_state 5) = [0x41, 0, 0x42] \<and>
   BuildEventMetadataEvent ex_state ex_metadataEvent 1 nul_sourceInstance =
     Inr \<lparr>inst_pEvent = ex_metadataEvent, inst_threadID = 1,
          inst_pData = [0x41, 0, 0, 0, 0x42, 0, 0, 0,  7, 0, 0, 0,  1, 0, 0, 0,  3, 0, 0, 0,
                        1, 2, 3],
          inst_dataLength = 23, inst_timeStamp = 1000\<rparr> \<and>
   read_wstring [0x41, 0, 0, 0, 0x42, 0, 0, 0,  7, 0, 0, 0,  1, 0, 0, 0,  3, 0, 0, 0, 1, 2, 3] =
     Some ([0x41], [0x42, 0, 0, 0,  7, 0, 0, 0,  1, 0, 0, 0,  3, 0, 0, 0, 1, 2, 3]) \<and>
   decode_metadata [0x41, 0, 0, 0, 0x42, 0, 0, 0,  7, 0, 0, 0,  1, 0, 0, 0,  3, 0, 0, 0, 1, 2, 3] \<noteq>
     Some ([0x41, 0, 0x42], 7, 1, 3, [1, 2, 3])"
  by (simp add: nul_sourceInstance_def ex_state_eq EventPipeConfiguration_ctor_def ex_heap_simps
      EventPipeProvider_ctor_def nul_name_def bytes_of_WCHAR_def bytes_of_uint32_def
      BuildEventMetadataEvent_def GetCount_def GetUnicode_def memcpy_def decode_metadata_def
      WCHAR_of_bytes_def uint32_of_bytes_def)

text \<open>The spec's example: provider Foo, event 7, version 1, schema blob 01 02 03.\<close>

theorem BuildEventMetadataEvent_layout_witness:
  "prov_providerName (heap ex_state 4) = W ''Foo'' \<and>
   (0 :: WCHAR) \<notin> set (W ''Foo'') \<and>
   BuildEventMetadataEvent ex_state ex_metadataEvent 1 ex_sourceInstance =
     Inr \<lparr>inst_pEvent = ex_metadataEvent, inst_threadID = 1,
          inst_pData = [0x46, 0, 0x6F, 0, 0x6F, 0, 0, 0,  7, 0, 0, 0,  1, 0, 0, 0,  3, 0, 0, 0,
                        1, 2, 3],
          inst_dataLength = 23, inst_timeStamp = 1000\<rparr> \<and>
   decode_metadata [0x46, 0, 0x6F, 0, 0x6F, 0, 0, 0,  7, 0, 0, 0,  1, 0, 0, 0,  3, 0, 0, 0, 1, 2, 3] =
     Some (W ''Foo'', 7, 1, 3, [1, 2, 3])"
  using BuildEventMetadataEvent_layout [where s = ex_state and pProvider = 4 and N = "W ''Foo''"
      and B = "[1, 2, 3]" and L = 3 and I = 7 and V = 1 and metadataEvent = ex_metadataEvent
      and threadId = 1 and t = 1 and d = "[]" and n = 0 and ts = 1000]
  by (simp add: ex_sourceInstance_def ex_state_eq EventPipeConfiguration_ctor_def ex_heap_simps
      EventPipeProvider_ctor_def W_def bytes_of_WCHAR_def bytes_of_uint32_def
      BuildEventMetadataEvent_def GetCount_def GetUnicode_def memcpy_def)

text \<open>
  The defect the statement leaves out: for the provider Foo and a schema blob of
  \<open>2^32 - 10\<close> bytes the layout has \<open>2^32 + 10\<close> bytes; the 32-bit sum is 10, a buffer of
  10 bytes is allocated, and the copies run past its end.
\<close>

lemma BuildEventMetadataEvent_size_wraps:
  "prov_providerName (heap ex_state 4) = W ''Foo'' \<and>
   inst_pEvent big_sourceInstance =
     \<lparr>evt_pProvider = 4, evt_eventID = 7, evt_eventVersion = 1,
      evt_pMetadata = replicate 4294967286 0, evt_metadataLength = 4294967286\<rparr> \<and>
   length (replicate 4294967286 (0 :: BYTE)) = unat (4294967286 :: 32 word) \<and>
   (length (W ''Foo'') + 1) * 2 + 4 + 4 + 4 + unat (4294967286 :: 32 word) = 4294967306 \<and>
   (GetCount (W ''Foo'') + 1) * 2 + 4 + 4 + 4 + (4294967286 :: 32 word) = 10 \<and>
   BuildEventMetadataEvent ex_state ex_metadataEvent 1 big_sourceInstance = Inl BufferOverrun"
  by (simp add: BuildEventMetadataEvent_def big_sourceInstance_def ex_state_eq
      EventPipeConfiguration_ctor_def ex_heap_simps EventPipeProvider_ctor_def W_def GetCount_def)

subsection \<open>Disable and the deferred-deletion sweep\<close>

text \<open>
  Claim C3, as amended. \<^verbatim>\<open>Disable\<close> sets every registered provider to enabled = false,
  keywords = 0, level = Critical, clears the enabled and the rundown flag and leaves no
  filter list. It does not run the deferred-deletion sweep: the provider list, and so
  every lookup, is as before the call. The sweep is the separate operation
  \<^verbatim>\<open>DeleteDeferredProviders\<close>; once it has run after \<^verbatim>\<open>Disable\<close>, a provider that was
  found under its name and is flagged for deferred deletion is no longer found (names
  being unique in the list).
\<close>

theorem Disable_then_sweep:
  "m_enabled (Disable s) = False \<and>
   m_rundownEnabled (Disable s) = False \<and>
   m_pEnabledProviderList (Disable s) = None \<and>
   (\<forall>p \<in> registered s.
      heap (Disable s) p = SetConfiguration False 0 Critical (heap s p) \<and>
      prov_enabled (heap (Disable s) p) = False \<and>
      prov_keywords (heap (Disable s) p) = 0 \<and>
      prov_providerLevel (heap (Disable s) p) = Critical) \<and>
   m_pProviderList (Disable s) = m_pProviderList s \<and>
   GetProvider n (Disable s) = GetProvider n s \<and>
   (names_unique s \<and> GetProvider n s = Some q \<and> prov_deleteDeferred (heap s q) \<longrightarrow>
      GetProvider n (DeleteDeferredProviders (Disable s)) = None)"
proof -
  have "GetProvider n (DeleteDeferredProviders (Disable s)) = None"
    if "names_unique s" "GetProvider n s = Some q" "prov_deleteDeferred (heap s q)"
  proof (rule sweep_removes_flagged [where p = q])
    show "names_unique (Disable s)" using that by simp
    show "GetProvider n (Disable s) = Some q" using that by simp
    have "q \<in> registered s"
      using that(2) by (cases "m_pProviderList s")
        (auto simp: GetProvider_def GetProviderNoLock_def registered_def find_Some_iff)
    then show "prov_deleteDeferred (heap (Disable s) q)"
      using that(3) by (simp add: heap_Disable)
  qed
  then show ?thesis
    by (simp add: heap_Disable SetConfiguration_def)
qed

text \<open>
  The claim as stated fails: C is registered under a unique name and flagged for deferred
  deletion, and after \<^verbatim>\<open>Disable\<close> the lookup of its name still returns it.
\<close>

theorem Disable_then_sweep_counterexample:
  "names_unique ex_state \<and>
   GetProvider (W ''C'') ex_state = Some 3 \<and>
   prov_deleteDeferred (heap ex_state 3) \<and>
   GetProvider (W ''C'') (Disable ex_state) = Some 3"
  by (simp add: ex_state_eq names_unique_def GetProvider_def GetProviderNoLock_def heap_Disable
      registered_def EventPipeConfiguration_ctor_def ex_heap_simps EventPipeProvider_ctor_def
      W_distinct)

theorem Disable_then_sweep_witness:
  "3 \<in> registered ex_state \<and>
   heap (Disable ex_state) 3 = SetConfiguration False 0 Critical (ex_heap 3) \<and>
   GetProvider (W ''C'') (Disable ex_state) = Some 3 \<and>
   GetProvider (W ''C'') (DeleteDeferredProviders (Disable ex_state)) = None"
  using Disable_then_sweep [where s = ex_state and n = "W ''C''" and q = 3]
  by (simp add: ex_state_eq names_unique_def GetProvider_def GetProviderNoLock_def registered_def
      EventPipeConfiguration_ctor_def ex_heap_simps EventPipeProvider_ctor_def W_distinct)

subsection \<open>Registration keeps names unique\<close>

text \<open>
  Claim C4. If the provider list holds a provider of the same name (names compared code
  unit by code unit, so case-sensitively), \<^verbatim>\<open>RegisterProvider\<close> returns false and changes
  nothing. The list of a new configuration has no two providers of one name, and every
  operation of the class keeps it so: \<^verbatim>\<open>RegisterProvider\<close>, \<^verbatim>\<open>UnregisterProvider\<close>,
  \<^verbatim>\<open>DeleteProvider\<close>, \<^verbatim>\<open>CreateProvider\<close> and \<^verbatim>\<open>Initialize\<close> (the new object being at an
  address no list element holds), \<^verbatim>\<open>SetCircularBufferSize\<close>, \<^verbatim>\<open>Enable\<close>, \<^verbatim>\<open>Disable\<close>,
  \<^verbatim>\<open>EnableRundown\<close>, \<^verbatim>\<open>DeleteDeferredProviders\<close> and the destructor.
\<close>

theorem RegisterProvider_unique_names:
  "(GetProviderNoLock (prov_providerName (heap s provider)) s \<noteq> None \<longrightarrow>
      RegisterProvider provider s = (False, s)) \<and>
   names_unique (EventPipeConfiguration_ctor h) \<and>
   (names_unique s \<longrightarrow>
      names_unique (snd (RegisterProvider provider s)) \<and>
      names_unique (snd (UnregisterProvider provider s)) \<and>
      names_unique (DeleteProvider pProvider s) \<and>
      (a \<notin> registered s \<longrightarrow>
         names_unique (snd (CreateProvider a providerName pCallbackFunction pCallbackData s)) \<and>
         names_unique (Initialize a s)) \<and>
      names_unique (SetCircularBufferSize circularBufferSize s) \<and>
      names_unique (Enable perfTracing circularBufferSizeInMB pProviders s) \<and>
      names_unique (Disable s) \<and>
      (\<forall>s'. EnableRundown perfTracing s = Inr s' \<longrightarrow> names_unique s') \<and>
      names_unique (DeleteDeferredProviders s) \<and>
      names_unique (EventPipeConfiguration_dtor s))"
proof -
  have dup: "RegisterProvider provider s = (False, s)"
    if "GetProviderNoLock (prov_providerName (heap s provider)) s \<noteq> None"
    using that by (auto simp: RegisterProvider_found)
  have init: "names_unique (EventPipeConfiguration_ctor h)"
    by (simp add: names_unique_def EventPipeConfiguration_ctor_def)
  have size: "names_unique (SetCircularBufferSize circularBufferSize s)" if "names_unique s"
    using that by (simp add: SetCircularBufferSize_def names_unique_fields)
  have rundown: "names_unique s'" if "names_unique s" "EnableRundown perfTracing s = Inr s'" for s'
    using that by (auto simp: EnableRundown_def names_unique_Enable names_unique_fields split: if_splits)
  show ?thesis
    using dup init size rundown
    by (simp add: names_unique_RegisterProvider names_unique_UnregisterProvider
        names_unique_DeleteProvider names_unique_CreateProvider names_unique_Initialize
        names_unique_Enable names_unique_DeleteDeferredProviders names_unique_dtor)
qed

text \<open>
  The spec's example: A is registered at address 0; registering the second provider
  named A (address 2) fails and leaves the configuration as it was.
\<close>

theorem RegisterProvider_unique_names_witness:
  "GetProviderNoLock (prov_providerName (heap ex_state 2)) ex_state = Some 0 \<and>
   RegisterProvider 2 ex_state = (False, ex_state) \<and>
   m_pProviderList ex_state = Some [0, 1, 3] \<and>
   names_unique ex_state \<and>
   2 \<notin> registered ex_state \<and>
   names_unique (snd (RegisterProvider 2 ex_state)) \<and>
   names_unique (snd (CreateProvider 2 (W ''A'') None None ex_state)) \<and>
   names_unique (DeleteDeferredProviders ex_state) \<and>
   EnableRundown 0 ex_state = Inr (Enable 0 1 rundownProviders (ex_state\<lparr>m_rundownEnabled := True\<rparr>)) \<and>
   names_unique (Enable 0 1 rundownProviders (ex_state\<lparr>m_rundownEnabled := True\<rparr>))"
  using RegisterProvider_unique_names [where s = ex_state and provider = 2 and a = 2
      and providerName = "W ''A''" and pCallbackFunction = None and pCallbackData = None
      and perfTracing = 0 and h = ex_heap]
  by (simp add: ex_state_eq GetProviderNoLock_def names_unique_def registered_def EnableRundown_def
      EventPipeConfiguration_ctor_def ex_heap_simps EventPipeProvider_ctor_def W_distinct)

subsection \<open>The catch-all filter\<close>

text \<open>
  Claim C5. When the low bit of the start-up flag is set at the construction of the filter
  list, the list built is the one built from no tuples at all, and
  \<^verbatim>\<open>GetEnabledProvider\<close> returns, for every provider whatever its name, a filter with all
  64 keyword bits set and level Verbose.
\<close>

theorem catch_all_matches_every_provider:
  "perfTracing AND 1 = 1 \<longrightarrow>
     EventPipeEnabledProviderList_ctor perfTracing pConfigs =
       EventPipeEnabledProviderList_ctor perfTracing [] \<and>
     GetEnabledProvider (EventPipeEnabledProviderList_ctor perfTracing pConfigs) pProvider =
       Some \<lparr>m_pProviderName = None, m_keywords = 0xFFFFFFFFFFFFFFFF, m_loggingLevel = Verbose\<rparr> \<and>
     (0xFFFFFFFFFFFFFFFF :: 64 word) = NOT 0"
  by (simp add: EventPipeEnabledProviderList_ctor_def GetEnabledProvider_def
      EventPipeEnabledProvider_Set_def)

theorem catch_all_matches_every_provider_witness:
  "(1 :: 32 word) AND 1 = 1 \<and>
   GetEnabledProvider (EventPipeEnabledProviderList_ctor 1 ex_filters)
     (EventPipeProvider_ctor (W ''NeverSeenBefore'') None None) =
       Some \<lparr>m_pProviderName = None, m_keywords = 0xFFFFFFFFFFFFFFFF, m_loggingLevel = 5\<rparr> \<and>
   find (\<lambda>c. cfg_pProviderName c = W ''NeverSeenBefore'') ex_filters = None"
  using catch_all_matches_every_provider [where perfTracing = 1 and pConfigs = ex_filters
      and pProvider = "EventPipeProvider_ctor (W ''NeverSeenBefore'') None None"]
  by (simp add: Verbose_def ex_filters_def W_def EventPipeEnabledProviderList_ctor_def
      GetEnabledProvider_def EventPipeEnabledProvider_Set_def)

subsection \<open>Rundown\<close>

text \<open>
  Claim C6. The rundown configuration has exactly two entries, one for each of the two
  fixed provider names, each with keywords 0x80020138 and level Verbose. When no filter
  list is set, \<^verbatim>\<open>EnableRundown\<close> sets the rundown flag and is \<^verbatim>\<open>Enable\<close> with 1 MB and that
  configuration: the session is enabled, the buffer size is 1024 * 1024 bytes, and the
  filter list is the one built from the two entries (with the start-up flag clear, its
  two filters). When a filter list is set, the call fails its assertion.
\<close>

theorem EnableRundown_effect:
  "rundownProviders =
     [\<lparr>cfg_pProviderName = W ''Microsoft-Windows-DotNETRuntime'',
       cfg_keywords = 0x80020138, cfg_loggingLevel = Verbose\<rparr>,
      \<lparr>cfg_pProviderName = W ''Microsoft-Windows-DotNETRuntimeRundown'',
       cfg_keywords = 0x80020138, cfg_loggingLevel = Verbose\<rparr>] \<and>
   (m_pEnabledProviderList s = None \<longrightarrow>
      EnableRundown perfTracing s =
        Inr (Enable perfTracing 1 rundownProviders (s\<lparr>m_rundownEnabled := True\<rparr>)) \<and>
      (\<exists>s'. EnableRundown perfTracing s = Inr s' \<and>
            m_rundownEnabled s' \<and> m_enabled s' \<and>
            m_circularBufferSizeInBytes s' = 1024 * 1024 \<and>
            m_pEnabledProviderList s' =
              Some (EventPipeEnabledProviderList_ctor perfTracing rundownProviders) \<and>
            (perfTracing AND 1 \<noteq> 1 \<longrightarrow>
               m_pEnabledProviderList s' =
                 Some \<lparr>m_pProviders = Some
                         [\<lparr>m_pProviderName = Some (W ''Microsoft-Windows-DotNETRuntime''),
                           m_keywords = 0x80020138, m_loggingLevel = Verbose\<rparr>,
                          \<lparr>m_pProviderName = Some (W ''Microsoft-Windows-DotNETRuntimeRundown''),
                           m_keywords = 0x80020138, m_loggingLevel = Verbose\<rparr>],
                       m_pCatchAllProvider = None, m_numProviders = 2\<rparr>))) \<and>
   (m_pEnabledProviderList s \<noteq> None \<longrightarrow> EnableRundown perfTracing s = Inl AssertionFailure)"
  by (simp add: EnableRundown_def rundownProviders_def EventPipeEnabledProviderList_ctor_def
      EventPipeEnabledProvider_Set_def)

theorem EnableRundown_effect_witness:
  "m_pEnabledProviderList ex_state = None \<and>
   EnableRundown 0 ex_state = Inr (Enable 0 1 rundownProviders (ex_state\<lparr>m_rundownEnabled := True\<rparr>)) \<and>
   m_pEnabledProviderList (Enable 0 10 ex_filters ex_state) \<noteq> None \<and>
   EnableRundown 0 (Enable 0 10 ex_filters ex_state) = Inl AssertionFailure"
  using EnableRundown_effect [where s = ex_state and perfTracing = 0]
    EnableRundown_effect [where s = "Enable 0 10 ex_filters ex_state" and perfTracing = 0]
  by (simp add: ex_state_eq EventPipeConfiguration_ctor_def)

subsection \<open>Buffer size\<close>

text \<open>
  The byte count \<^verbatim>\<open>Enable\<close> stores is the product taken in 32 bits: it is exact below
  4096 MB and wraps from there on.
\<close>

lemma Enable_buffer_size:
  "unat (m_circularBufferSizeInBytes (Enable perfTracing mb pProviders s)) =
     (unat mb * 1024 * 1024) mod 2 ^ 32"
  by (simp add: unsigned_ucast_eq take_bit_nat_eq_self unat_word_ariths mod_simps)

lemma Enable_buffer_size_exact:
  assumes "unat mb < 4096"
  shows "unat (m_circularBufferSizeInBytes (Enable perfTracing mb pProviders s)) =
           unat mb * 1024 * 1024"
proof -
  have "unat mb * 1024 * 1024 < 2 ^ 32"
    using assms by simp
  then show ?thesis
    by (simp only: Enable_buffer_size mod_less)
qed

text \<open>
  Claim C7 says the stored 64-bit byte count is \<open>circularBufferSizeInMB * 1024 * 1024\<close>
  for every 32-bit input. The code does not do that: at 4096 MB it stores 0, not
  4294967296.
\<close>

theorem Enable_buffer_size_wraps:
  "m_circularBufferSizeInBytes (Enable perfTracing 4096 pProviders s) = 0 \<and>
   unat (m_circularBufferSizeInBytes (Enable perfTracing 4096 pProviders s)) \<noteq>
     unat (4096 :: 32 word) * 1024 * 1024"
  by simp

text \<open>
  Claim C8. \<^verbatim>\<open>SetCircularBufferSize(bytes)\<close> called while the session is enabled leaves the
  whole state as it was (the function returns nothing, so no error is reported); called
  while the session is disabled it stores exactly the given byte count and changes no
  other field.
\<close>

theorem SetCircularBufferSize_effect:
  "(m_enabled s \<longrightarrow> SetCircularBufferSize bytes s = s) \<and>
   (\<not> m_enabled s \<longrightarrow>
      SetCircularBufferSize bytes s = s\<lparr>m_circularBufferSizeInBytes := bytes\<rparr> \<and>
      GetCircularBufferSize (SetCircularBufferSize bytes s) = bytes)"
  by (simp add: SetCircularBufferSize_def GetCircularBufferSize_def)

theorem SetCircularBufferSize_effect_witness:
  "SetCircularBufferSize 4096 (EventPipeConfiguration_ctor ex_heap) =
     (EventPipeConfiguration_ctor ex_heap)\<lparr>m_circularBufferSizeInBytes := 4096\<rparr> \<and>
   m_enabled (Enable 0 1 [] (EventPipeConfiguration_ctor ex_heap)) \<and>
   SetCircularBufferSize 4096 (Enable 0 1 [] (EventPipeConfiguration_ctor ex_heap)) =
     Enable 0 1 [] (EventPipeConfiguration_ctor ex_heap)"
  using SetCircularBufferSize_effect [of "EventPipeConfiguration_ctor ex_heap" 4096]
    SetCircularBufferSize_effect [of "Enable 0 1 [] (EventPipeConfiguration_ctor ex_heap)" 4096]
  by (simp add: Enable_def EventPipeConfiguration_ctor_def)

subsection \<open>Registration after the provider list is gone\<close>

text \<open>
  Claim C9. When the provider list is \<^verbatim>\<open>NULL\<close>, \<^verbatim>\<open>RegisterProvider\<close> returns true for any
  provider, the provider gets the configuration of the filter that the session's filter
  list (if there is one) finds for it, the list stays \<^verbatim>\<open>NULL\<close>, and a lookup of any name
  afterwards returns none.
\<close>

theorem RegisterProvider_without_list:
  "m_pProviderList s = None \<longrightarrow>
     fst (RegisterProvider provider s) \<and>
     m_pProviderList (snd (RegisterProvider provider s)) = None \<and>
     GetProvider providerName (snd (RegisterProvider provider s)) = None \<and>
     heap (snd (RegisterProvider provider s)) provider =
       (case m_pEnabledProviderList s of
          None \<Rightarrow> heap s provider
        | Some l \<Rightarrow>
            (case GetEnabledProvider l (heap s provider) of
               None \<Rightarrow> heap s provider
             | Some pEnabledProvider \<Rightarrow>
                 SetConfiguration True (m_keywords pEnabledProvider)
                   (m_loggingLevel pEnabledProvider) (heap s provider)))"
  by (auto simp: RegisterProvider_def GetProvider_def GetProviderNoLock_def Let_def
      split: option.splits)

text \<open>A session enabled on a destructed configuration, and A registering with it.\<close>

theorem RegisterProvider_without_list_witness:
  "m_pProviderList (Enable 0 10 ex_filters (EventPipeConfiguration_dtor ex_state)) = None \<and>
   fst (RegisterProvider 0 (Enable 0 10 ex_filters (EventPipeConfiguration_dtor ex_state))) \<and>
   heap (snd (RegisterProvider 0 (Enable 0 10 ex_filters (EventPipeConfiguration_dtor ex_state)))) 0 =
     SetConfiguration True 0xFF Informational (ex_heap 0) \<and>
   GetProvider (W ''A'')
     (snd (RegisterProvider 0 (Enable 0 10 ex_filters (EventPipeConfiguration_dtor ex_state)))) = None"
  using RegisterProvider_without_list
    [where s = "Enable 0 10 ex_filters (EventPipeConfiguration_dtor ex_state)" and provider = 0
       and providerName = "W ''A''"]
  by (simp add: ex_state_eq EventPipeConfiguration_dtor_def EventPipeConfiguration_ctor_def
      heap_Enable registered_def GetEnabledProvider_ctor EventPipeEnabledProvider_Set_def
      ex_filters_def ex_heap_simps EventPipeProvider_ctor_def wcscmp_equal_def)

subsection \<open>Disable is idempotent\<close>

text \<open>
  Claim C10. From any state, \<^verbatim>\<open>Disable\<close> called twice (or three times) leaves exactly the
  state one call leaves: both flags false, no filter list, and every registered provider
  at enabled = false, keywords = 0, level = Critical.
\<close>

theorem Disable_idempotent:
  "Disable (Disable s) = Disable s \<and>
   Disable (Disable (Disable s)) = Disable s \<and>
   m_enabled (Disable (Disable s)) = False \<and>
   m_rundownEnabled (Disable (Disable s)) = False \<and>
   m_pEnabledProviderList (Disable (Disable s)) = None \<and>
   (\<forall>p \<in> registered (Disable (Disable s)).
      prov_enabled (heap (Disable (Disable s)) p) = False \<and>
      prov_keywords (heap (Disable (Disable s)) p) = 0 \<and>
      prov_providerLevel (heap (Disable (Disable s)) p) = Critical)"
proof -
  have i: "Disable (Disable s) = Disable s"
    by (cases "m_pProviderList s") (simp_all add: Disable_def Disable_loop_closed fun_eq_iff)
  show ?thesis
    unfolding i i by (simp add: heap_Disable registered_def SetConfiguration_def)
qed

theorem Disable_idempotent_witness:
  "0 \<in> registered (Enable 0 10 ex_filters ex_state) \<and>
   prov_enabled (heap (Enable 0 10 ex_filters ex_state) 0) \<and>
   Disable (Disable (Enable 0 10 ex_filters ex_state)) = Disable (Enable 0 10 ex_filters ex_state) \<and>
   heap (Disable (Disable (Enable 0 10 ex_filters ex_state))) 0 =
     SetConfiguration False 0 Critical (ex_heap 0)"
  using Disable_idempotent [of "Enable 0 10 ex_filters ex_state"]
  by (simp add: ex_state_eq heap_Disable heap_Enable apply_filter_ctor registered_def
      EventPipeConfiguration_ctor_def ex_filters_def ex_heap_simps EventPipeProvider_ctor_def
      SetConfiguration_def W_distinct wcscmp_equal_def)

end
